theory Spec2Isabelle
  imports Main "HOL-Library.AList"
begin

section \<open>The service template \<open>src/EXAMPLE/__init__.py\<close>\<close>

text \<open>
  The file declares one class, \<open>SERVICE_TAG(Service)\<close>. Its base class \<open>Service\<close>
  belongs to the host framework and is imported, so the two base methods the class
  calls through \<open>super()\<close> are parameters of the model (the record \<open>host\<close>).
  Every method is a function of the receiver's attribute dictionary and the
  arguments; it yields what the call returns or raises, the attribute dictionary
  after the call and the list of effects the method body performed, in order.
\<close>

subsection \<open>Python values, exceptions, return annotations\<close>

datatype pyval =
    PyNone
  | PyStr string
  | PyBytes "nat list"
  | PyInt int
  | PyList "pyval list"
  | PyInstance string "(string \<times> pyval) list"

text \<open>An instance's \<open>__dict__\<close>, and the dictionary behind \<open>**kwargs\<close>: insertion ordered.\<close>

type_synonym attrs = "(string \<times> pyval) list"
type_synonym kwargs = "(string \<times> pyval) list"

datatype exn = TypeError | EnvironmentError | OtherError string

datatype hint =
    TNone
  | TStr
  | TBytes
  | TClass string
  | TList hint
  | TUnion "hint list"
  | TOptional hint

text \<open>Whether a value is one the annotation admits.\<close>

fun conforms :: "pyval \<Rightarrow> hint \<Rightarrow> bool" where
  "conforms v TNone = (v = PyNone)"
| "conforms v TStr = (case v of PyStr _ \<Rightarrow> True | _ \<Rightarrow> False)"
| "conforms v TBytes = (case v of PyBytes _ \<Rightarrow> True | _ \<Rightarrow> False)"
| "conforms v (TClass c) = (case v of PyInstance c' _ \<Rightarrow> c' = c | _ \<Rightarrow> False)"
| "conforms v (TList t) = (case v of PyList vs \<Rightarrow> list_all (\<lambda>x. conforms x t) vs | _ \<Rightarrow> False)"
| "conforms v (TUnion ts) = list_ex (\<lambda>t. conforms v t) ts"
| "conforms v (TOptional t) = (v = PyNone \<or> conforms v t)"

subsection \<open>The host's base class, effects, outcomes\<close>

text \<open>
  \<open>Service.__init__(self, ctx)\<close> and \<open>Service.authenticate(self, cookies, credential)\<close>:
  each receives the instance as it is at the call, and gives the instance back as it
  left it, with the exception it raised, if any.
\<close>

record host =
  Service_init :: "attrs \<Rightarrow> pyval \<Rightarrow> attrs \<times> exn option"
  Service_authenticate :: "attrs \<Rightarrow> pyval \<Rightarrow> pyval \<Rightarrow> attrs \<times> exn option"

text \<open>
  What a method body does besides returning: constructing an object of a class,
  assigning an attribute of \<open>self\<close>, and the two \<open>super()\<close> calls, each recorded with
  the instance the base method was handed and its arguments.
\<close>

datatype event =
    New string
  | SetAttr string pyval
  | SuperInit attrs pyval
  | SuperAuthenticate attrs pyval pyval

record outcome =
  returned :: "exn + pyval"
  self_after :: attrs
  trace :: "event list"

definition raised :: "exn option \<Rightarrow> exn + pyval" where
  "raised err = (case err of None \<Rightarrow> Inr PyNone | Some e \<Rightarrow> Inl e)"

subsection \<open>The constructor and the command callback\<close>

text \<open>
  \<open>def __init__(self, ctx, title)\<close>: line 62 assigns \<open>self.title\<close>, line 65 calls the
  base constructor; the string literal that follows is an expression statement.
\<close>

definition SERVICE_TAG_init :: "host \<Rightarrow> attrs \<Rightarrow> pyval \<Rightarrow> pyval \<Rightarrow> outcome" where
  "SERVICE_TAG_init h self ctx title =
     (let self1 = AList.update ''title'' title self;
          (self2, err) = Service_init h self1 ctx
      in \<lparr>returned = raised err,
          self_after = self2,
          trace = [SetAttr ''title'' title, SuperInit self1 ctx]\<rparr>)"

text \<open>
  Binding the arguments of a call to parameters without defaults, as Python does:
  positional arguments fill the parameters from the left, a keyword that names a filled
  parameter or no parameter is a \<open>TypeError\<close>, and so is a parameter left without a
  value. The result lists the values in the parameters' order.
\<close>

fun bind_args :: "string list \<Rightarrow> pyval list \<Rightarrow> kwargs \<Rightarrow> exn + pyval list" where
  "bind_args [] [] kw = (if kw = [] then Inr [] else Inl TypeError)"
| "bind_args [] (a # rest) kw = Inl TypeError"
| "bind_args (p # ps) (a # rest) kw =
     (case map_of kw p of
        Some _ \<Rightarrow> Inl TypeError
      | None \<Rightarrow> map_sum id ((#) a) (bind_args ps rest kw))"
| "bind_args (p # ps) [] kw =
     (case map_of kw p of
        None \<Rightarrow> Inl TypeError
      | Some v \<Rightarrow> map_sum id ((#) v) (bind_args ps [] (AList.delete p kw)))"

text \<open>
  The call expression \<open>SERVICE_TAG(*args, **kwargs)\<close>: a fresh instance with an empty
  \<open>__dict__\<close> is allocated, then \<open>__init__\<close> runs on it; an exception of \<open>__init__\<close>
  is the call's, otherwise the call evaluates to the instance.
\<close>

definition SERVICE_TAG_call :: "host \<Rightarrow> pyval list \<Rightarrow> kwargs \<Rightarrow> (exn + pyval) \<times> event list" where
  "SERVICE_TAG_call h args kw =
     (case bind_args [''ctx'', ''title''] args kw of
        Inl e \<Rightarrow> (Inl e, [New ''SERVICE_TAG''])
      | Inr [ctx, title] \<Rightarrow>
          (let r = SERVICE_TAG_init h [] ctx title
           in (case returned r of
                 Inl e \<Rightarrow> Inl e
               | Inr _ \<Rightarrow> Inr (PyInstance ''SERVICE_TAG'' (self_after r)),
               New ''SERVICE_TAG'' # trace r))
      | Inr _ \<Rightarrow> (Inl TypeError, [New ''SERVICE_TAG'']))"

text \<open>
  The decorators of lines 47 to 50: a static click command named \<open>SERVICE_TAG\<close> with
  one argument, \<open>title\<close> of type \<open>str\<close>, whose callback is passed the context.
\<close>

record click_command =
  command_name :: string
  short_help :: string
  arguments :: "(string \<times> hint) list"
  pass_context :: bool
  static :: bool

definition cli_command :: click_command where
  "cli_command =
     \<lparr>command_name = ''SERVICE_TAG'',
      short_help = ''https://website.com'',
      arguments = [(''title'', TStr)],
      pass_context = True,
      static = True\<rparr>"

text \<open>
  The callback \<open>def cli(ctx, **kwargs)\<close>, called as \<open>cli(ctx, **kw)\<close>. Line 51 binds its
  own parameters first: a keyword \<open>ctx\<close> collides with the positional parameter, a
  \<open>TypeError\<close> raised before the body runs, and every other keyword goes into \<open>kwargs\<close>.
  The body is line 58: \<open>return SERVICE_TAG(ctx, **kwargs)\<close>.
\<close>

definition cli :: "host \<Rightarrow> pyval \<Rightarrow> kwargs \<Rightarrow> (exn + pyval) \<times> event list" where
  "cli h ctx kw =
     (case map_of kw ''ctx'' of
        Some _ \<Rightarrow> (Inl TypeError, [])
      | None \<Rightarrow> SERVICE_TAG_call h [ctx] kw)"

subsection \<open>The hooks\<close>

text \<open>A body that is the bare \<open>...\<close>: the call returns \<open>None\<close> and does nothing.\<close>

definition get_session :: "attrs \<Rightarrow> outcome" where
  "get_session self = \<lparr>returned = Inr PyNone, self_after = self, trace = []\<rparr>"

text \<open>
  \<open>authenticate\<close>, line 125: \<open>super().authenticate(cookies, credential)\<close>, then \<open>...\<close>.
  An argument left out is \<open>None\<close>.
\<close>

definition authenticate :: "host \<Rightarrow> attrs \<Rightarrow> pyval \<Rightarrow> pyval \<Rightarrow> outcome" where
  "authenticate h self cookies credential =
     (let (self1, err) = Service_authenticate h self cookies credential
      in \<lparr>returned = raised err,
          self_after = self1,
          trace = [SuperAuthenticate self cookies credential]\<rparr>)"

definition get_titles :: "attrs \<Rightarrow> outcome" where
  "get_titles self = \<lparr>returned = Inr PyNone, self_after = self, trace = []\<rparr>"

definition get_tracks :: "attrs \<Rightarrow> pyval \<Rightarrow> outcome" where
  "get_tracks self title = \<lparr>returned = Inr PyNone, self_after = self, trace = []\<rparr>"

definition get_chapters :: "attrs \<Rightarrow> pyval \<Rightarrow> outcome" where
  "get_chapters self title = \<lparr>returned = Inr PyNone, self_after = self, trace = []\<rparr>"

definition get_widevine_service_certificate ::
  "attrs \<Rightarrow> pyval \<Rightarrow> pyval \<Rightarrow> pyval \<Rightarrow> outcome" where
  "get_widevine_service_certificate self challenge title track =
     \<lparr>returned = Inr PyNone, self_after = self, trace = []\<rparr>"

definition get_widevine_license ::
  "attrs \<Rightarrow> pyval \<Rightarrow> pyval \<Rightarrow> pyval \<Rightarrow> outcome" where
  "get_widevine_license self challenge title track =
     \<lparr>returned = Inr PyNone, self_after = self, trace = []\<rparr>"

definition get_api_config_data :: "attrs \<Rightarrow> pyval \<Rightarrow> pyval \<Rightarrow> outcome" where
  "get_api_config_data self device_id version =
     \<lparr>returned = Inr PyNone, self_after = self, trace = []\<rparr>"

subsection \<open>Every operation of the class\<close>

datatype call =
    Call_cli pyval kwargs
  | Call_init pyval pyval
  | Call_get_session
  | Call_authenticate pyval pyval
  | Call_get_titles
  | Call_get_tracks pyval
  | Call_get_chapters pyval
  | Call_get_widevine_service_certificate pyval pyval pyval
  | Call_get_widevine_license pyval pyval pyval
  | Call_get_api_config_data pyval pyval

text \<open>\<open>cli\<close> is a static method: it has no receiver, so the receiver is left as it is.\<close>

fun invoke :: "host \<Rightarrow> attrs \<Rightarrow> call \<Rightarrow> outcome" where
  "invoke h self (Call_cli ctx kw) =
     \<lparr>returned = fst (cli h ctx kw), self_after = self, trace = snd (cli h ctx kw)\<rparr>"
| "invoke h self (Call_init ctx title) = SERVICE_TAG_init h self ctx title"
| "invoke h self Call_get_session = get_session self"
| "invoke h self (Call_authenticate cookies credential) = authenticate h self cookies credential"
| "invoke h self Call_get_titles = get_titles self"
| "invoke h self (Call_get_tracks title) = get_tracks self title"
| "invoke h self (Call_get_chapters title) = get_chapters self title"
| "invoke h self (Call_get_widevine_service_certificate challenge title track) =
     get_widevine_service_certificate self challenge title track"
| "invoke h self (Call_get_widevine_license challenge title track) =
     get_widevine_license self challenge title track"
| "invoke h self (Call_get_api_config_data device_id version) =
     get_api_config_data self device_id version"

text \<open>The methods whose body is only \<open>...\<close>.\<close>

fun is_stub :: "call \<Rightarrow> bool" where
  "is_stub (Call_cli _ _) = False"
| "is_stub (Call_init _ _) = False"
| "is_stub (Call_authenticate _ _) = False"
| "is_stub _ = True"

text \<open>The methods under the comment \<open># Required methods:\<close> (lines 128 to 167).\<close>

fun required :: "call \<Rightarrow> bool" where
  "required Call_get_titles = True"
| "required (Call_get_tracks _) = True"
| "required (Call_get_chapters _) = True"
| "required (Call_get_widevine_service_certificate _ _ _) = True"
| "required (Call_get_widevine_license _ _ _) = True"
| "required _ = False"

text \<open>The return annotation of each method, where it has one.\<close>

fun return_hint :: "call \<Rightarrow> hint option" where
  "return_hint (Call_cli _ _) = Some (TClass ''SERVICE_TAG'')"
| "return_hint (Call_init _ _) = None"
| "return_hint Call_get_session = Some (TClass ''requests.Session'')"
| "return_hint (Call_authenticate _ _) = Some TNone"
| "return_hint Call_get_titles = Some (TUnion [TClass ''Movies'', TClass ''Series''])"
| "return_hint (Call_get_tracks _) = Some (TClass ''Tracks'')"
| "return_hint (Call_get_chapters _) = Some (TList (TClass ''Chapter''))"
| "return_hint (Call_get_widevine_service_certificate _ _ _) = Some (TUnion [TBytes, TStr])"
| "return_hint (Call_get_widevine_license _ _ _) = Some (TOptional (TUnion [TBytes, TStr]))"
| "return_hint (Call_get_api_config_data _ _) = None"

text \<open>The types the file imports from the host and only names in annotations.\<close>

definition external_types :: "string list" where
  "external_types = [''Movies'', ''Series'', ''Tracks'', ''Chapter'', ''Credential'', ''AnyTrack'']"

fun constructs_external :: "event \<Rightarrow> bool" where
  "constructs_external (New c) = (c \<in> set external_types)"
| "constructs_external _ = False"

fun is_New :: "event \<Rightarrow> bool" where
  "is_New (New _) = True"
| "is_New _ = False"

fun is_SuperInit :: "event \<Rightarrow> bool" where
  "is_SuperInit (SuperInit _ _) = True"
| "is_SuperInit _ = False"

fun is_SuperAuthenticate :: "event \<Rightarrow> bool" where
  "is_SuperAuthenticate (SuperAuthenticate _ _ _) = True"
| "is_SuperAuthenticate _ = False"

subsection \<open>Two base classes to run the template against\<close>

text \<open>A base class whose two methods accept everything and leave the instance alone.\<close>

definition idle_host :: host where
  "idle_host =
     \<lparr>Service_init = (\<lambda>self ctx. (self, None)),
      Service_authenticate = (\<lambda>self cookies credential. (self, None))\<rparr>"

text \<open>
  A base class that itself refuses a call without cookies and credential, and whose
  constructor copies the title it finds on the instance into \<open>seen\<close>.
\<close>

definition strict_host :: host where
  "strict_host =
     \<lparr>Service_init = (\<lambda>self ctx.
        (case map_of self ''title'' of
           None \<Rightarrow> (self, Some (OtherError ''no title''))
         | Some t \<Rightarrow> (AList.update ''seen'' t self, None))),
      Service_authenticate = (\<lambda>self cookies credential.
        if cookies = PyNone \<and> credential = PyNone then (self, Some EnvironmentError)
        else (AList.update ''authenticated'' (PyInt 1) self, None))\<rparr>"

definition ctx0 :: pyval where
  "ctx0 = PyInstance ''click.Context'' []"

section \<open>Properties\<close>

subsection \<open>Shared facts\<close>

lemmas stub_defs =
  get_session_def get_titles_def get_tracks_def get_chapters_def
  get_widevine_service_certificate_def get_widevine_license_def get_api_config_data_def

lemma SERVICE_TAG_call_no_external:
  "\<not> list_ex constructs_external (snd (SERVICE_TAG_call h args kw))"
  by (simp add: SERVICE_TAG_call_def SERVICE_TAG_init_def external_types_def Let_def
      split: sum.splits list.splits prod.splits)

lemma SERVICE_TAG_init_unfold:
  "SERVICE_TAG_init h self ctx title =
     \<lparr>returned = raised (snd (Service_init h (AList.update ''title'' title self) ctx)),
      self_after = fst (Service_init h (AList.update ''title'' title self) ctx),
      trace = [SetAttr ''title'' title, SuperInit (AList.update ''title'' title self) ctx]\<rparr>"
  by (simp add: SERVICE_TAG_init_def Let_def split: prod.splits)

lemma authenticate_unfold:
  "authenticate h self cookies credential =
     \<lparr>returned = raised (snd (Service_authenticate h self cookies credential)),
      self_after = fst (Service_authenticate h self cookies credential),
      trace = [SuperAuthenticate self cookies credential]\<rparr>"
  by (simp add: authenticate_def split: prod.splits)

lemma bind_ctx_title_keyword:
  "bind_args [''ctx'', ''title''] [ctx] [(''title'', t)] = Inr [ctx, t]"
  by simp

lemma bind_ctx_title_positional:
  "bind_args [''ctx'', ''title''] [ctx, t] [] = Inr [ctx, t]"
  by simp

lemma SERVICE_TAG_call_one_New:
  "filter is_New (snd (SERVICE_TAG_call h args kw)) = [New ''SERVICE_TAG'']"
  by (simp add: SERVICE_TAG_call_def SERVICE_TAG_init_unfold Let_def
      split: sum.splits list.splits)

lemma SERVICE_TAG_call_hd: "hd (snd (SERVICE_TAG_call h args kw)) = New ''SERVICE_TAG''"
  by (simp add: SERVICE_TAG_call_def Let_def split: sum.splits list.splits)

lemma bind_ctx_then_keywords:
  "bind_args [''ctx'', ''title''] [ctx] kw =
     (case map_of kw ''ctx'' of
        Some _ \<Rightarrow> Inl TypeError
      | None \<Rightarrow>
          (case map_of kw ''title'' of
             None \<Rightarrow> Inl TypeError
           | Some t \<Rightarrow> if AList.delete ''title'' kw = [] then Inr [ctx, t] else Inl TypeError))"
  by (simp split: option.splits)

lemma cli_outcome:
  "cli h ctx kw =
     (case map_of kw ''ctx'' of
        Some _ \<Rightarrow> (Inl TypeError, [])
      | None \<Rightarrow>
          (case map_of kw ''title'' of
             None \<Rightarrow> (Inl TypeError, [New ''SERVICE_TAG''])
           | Some t \<Rightarrow>
               if AList.delete ''title'' kw = []
               then (case snd (Service_init h [(''title'', t)] ctx) of
                       None \<Rightarrow>
                         Inr (PyInstance ''SERVICE_TAG'' (fst (Service_init h [(''title'', t)] ctx)))
                     | Some e \<Rightarrow> Inl e,
                     [New ''SERVICE_TAG'', SetAttr ''title'' t, SuperInit [(''title'', t)] ctx])
               else (Inl TypeError, [New ''SERVICE_TAG''])))"
proof (cases "map_of kw ''ctx''")
  case (Some a)
  then show ?thesis by (simp add: cli_def)
next
  case noctx: None
  show ?thesis
  proof (cases "map_of kw ''title''")
    case None
    with noctx show ?thesis
      by (simp add: cli_def SERVICE_TAG_call_def bind_ctx_then_keywords del: bind_args.simps)
  next
    case (Some t)
    with noctx show ?thesis
      by (simp add: cli_def SERVICE_TAG_call_def bind_ctx_then_keywords SERVICE_TAG_init_unfold
          raised_def del: bind_args.simps split: option.splits)
  qed
qed

lemma map_of_update_title: "map_of (AList.update ''title'' t self) ''title'' = Some t"
  by (simp add: update_conv')

subsection \<open>Claims\<close>

text \<open>
  C1 (as amended). Not every method body is a placeholder. The seven methods whose
  body is the bare ellipsis (\<open>get_session\<close>, \<open>get_titles\<close>, \<open>get_tracks\<close>,
  \<open>get_chapters\<close>, \<open>get_widevine_service_certificate\<close>, \<open>get_widevine_license\<close>,
  \<open>get_api_config_data\<close>) return \<open>None\<close>, leave the instance as it is and perform no
  effect, for every input. \<open>__init__\<close> assigns \<open>self.title\<close> and then calls the base
  initializer on the instance so changed, whose result and final instance are its own.
  \<open>authenticate\<close> calls the base method on the instance and arguments as given, whose
  result and final instance are its own. \<open>cli\<close>, called with keywords that do not name
  \<open>ctx\<close>, starts by constructing a \<open>SERVICE_TAG\<close> instance, and with the keywords
  \<open>{title: t}\<close> it constructs the instance, assigns its title and calls the base
  initializer.
\<close>

theorem stubs_are_placeholders:
  "(is_stub c \<longrightarrow>
      invoke h self c = \<lparr>returned = Inr PyNone, self_after = self, trace = []\<rparr>)
   \<and> invoke h self (Call_init ctx t)
     = \<lparr>returned = (case snd (Service_init h (AList.update ''title'' t self) ctx) of
                      None \<Rightarrow> Inr PyNone | Some e \<Rightarrow> Inl e),
        self_after = fst (Service_init h (AList.update ''title'' t self) ctx),
        trace = [SetAttr ''title'' t, SuperInit (AList.update ''title'' t self) ctx]\<rparr>
   \<and> invoke h self (Call_authenticate cookies credential)
     = \<lparr>returned = (case snd (Service_authenticate h self cookies credential) of
                      None \<Rightarrow> Inr PyNone | Some e \<Rightarrow> Inl e),
        self_after = fst (Service_authenticate h self cookies credential),
        trace = [SuperAuthenticate self cookies credential]\<rparr>
   \<and> (map_of kw ''ctx'' = None \<longrightarrow>
        hd (trace (invoke h self (Call_cli ctx kw))) = New ''SERVICE_TAG'')
   \<and> trace (invoke h self (Call_cli ctx [(''title'', t)]))
     = [New ''SERVICE_TAG'', SetAttr ''title'' t, SuperInit [(''title'', t)] ctx]"
proof -
  have stub: "is_stub c \<longrightarrow>
      invoke h self c = \<lparr>returned = Inr PyNone, self_after = self, trace = []\<rparr>"
    by (cases c) (simp_all add: stub_defs)
  have init: "invoke h self (Call_init ctx t)
     = \<lparr>returned = (case snd (Service_init h (AList.update ''title'' t self) ctx) of
                      None \<Rightarrow> Inr PyNone | Some e \<Rightarrow> Inl e),
        self_after = fst (Service_init h (AList.update ''title'' t self) ctx),
        trace = [SetAttr ''title'' t, SuperInit (AList.update ''title'' t self) ctx]\<rparr>"
    by (simp add: SERVICE_TAG_init_unfold raised_def)
  have auth: "invoke h self (Call_authenticate cookies credential)
     = \<lparr>returned = (case snd (Service_authenticate h self cookies credential) of
                      None \<Rightarrow> Inr PyNone | Some e \<Rightarrow> Inl e),
        self_after = fst (Service_authenticate h self cookies credential),
        trace = [SuperAuthenticate self cookies credential]\<rparr>"
    by (simp add: authenticate_unfold raised_def)
  have new: "map_of kw ''ctx'' = None \<longrightarrow>
        hd (trace (invoke h self (Call_cli ctx kw))) = New ''SERVICE_TAG''"
    by (simp add: cli_def SERVICE_TAG_call_hd)
  have full: "trace (invoke h self (Call_cli ctx [(''title'', t)]))
     = [New ''SERVICE_TAG'', SetAttr ''title'' t, SuperInit [(''title'', t)] ctx]"
    by (simp add: cli_outcome)
  from stub init auth new full show ?thesis by blast
qed

theorem stubs_are_placeholders_witness:
  "is_stub Call_get_titles
   \<and> invoke strict_host [(''title'', PyStr ''x'')] Call_get_titles
     = \<lparr>returned = Inr PyNone, self_after = [(''title'', PyStr ''x'')], trace = []\<rparr>
   \<and> invoke strict_host [] (Call_init ctx0 (PyStr ''x''))
     = \<lparr>returned = Inr PyNone,
        self_after = [(''title'', PyStr ''x''), (''seen'', PyStr ''x'')],
        trace = [SetAttr ''title'' (PyStr ''x''), SuperInit [(''title'', PyStr ''x'')] ctx0]\<rparr>
   \<and> invoke strict_host [] (Call_authenticate PyNone PyNone)
     = \<lparr>returned = Inl EnvironmentError, self_after = [],
        trace = [SuperAuthenticate [] PyNone PyNone]\<rparr>
   \<and> map_of [(''title'', PyStr ''x''), (''extra'', PyNone)] ''ctx'' = None
   \<and> hd (trace (invoke strict_host [] (Call_cli ctx0 [(''title'', PyStr ''x''), (''extra'', PyNone)])))
     = New ''SERVICE_TAG''"
proof -
  have base: "Service_init strict_host [(''title'', PyStr ''x'')] ctx0
      = ([(''title'', PyStr ''x''), (''seen'', PyStr ''x'')], None)"
    "Service_authenticate strict_host [] PyNone PyNone = ([], Some EnvironmentError)"
    by (simp_all add: strict_host_def)
  have kw: "map_of [(''title'', PyStr ''x''), (''extra'', PyNone)] ''ctx'' = None"
    by simp
  note t1 = stubs_are_placeholders
    [of Call_get_titles strict_host "[(''title'', PyStr ''x'')]" ctx0 "PyStr ''x''" PyNone PyNone "[]",
     THEN conjunct1]
  note t2 = stubs_are_placeholders
    [of Call_get_titles strict_host "[]" ctx0 "PyStr ''x''" PyNone PyNone
        "[(''title'', PyStr ''x''), (''extra'', PyNone)]", THEN conjunct2]
  from t1 have a: "invoke strict_host [(''title'', PyStr ''x'')] Call_get_titles
     = \<lparr>returned = Inr PyNone, self_after = [(''title'', PyStr ''x'')], trace = []\<rparr>"
    by simp
  from t2 kw have b: "invoke strict_host [] (Call_init ctx0 (PyStr ''x''))
     = \<lparr>returned = Inr PyNone,
        self_after = [(''title'', PyStr ''x''), (''seen'', PyStr ''x'')],
        trace = [SetAttr ''title'' (PyStr ''x''), SuperInit [(''title'', PyStr ''x'')] ctx0]\<rparr>"
    "invoke strict_host [] (Call_authenticate PyNone PyNone)
     = \<lparr>returned = Inl EnvironmentError, self_after = [],
        trace = [SuperAuthenticate [] PyNone PyNone]\<rparr>"
    "hd (trace (invoke strict_host [] (Call_cli ctx0 [(''title'', PyStr ''x''), (''extra'', PyNone)])))
     = New ''SERVICE_TAG''"
    by (simp_all add: base)
  from a b kw show ?thesis by simp
qed

text \<open>
  C1 as stated fails: the constructor, run on an empty instance with the title \<open>x\<close>,
  assigns \<open>self.title\<close> and calls the base constructor.
\<close>

theorem all_placeholders_counterexample:
  "trace (invoke idle_host [] (Call_init ctx0 (PyStr ''x'')))
     = [SetAttr ''title'' (PyStr ''x''), SuperInit [(''title'', PyStr ''x'')] ctx0]
   \<and> trace (invoke idle_host [] (Call_init ctx0 (PyStr ''x''))) \<noteq> []"
  by (simp add: SERVICE_TAG_init_def idle_host_def Let_def)

text \<open>
  C2 (as amended). \<open>authenticate(cookies, credential)\<close> raises an error exactly when
  \<open>Service.authenticate\<close>, called on the same instance with the same arguments, raises
  it; when the base method returns, the hook returns \<open>None\<close>. The template makes no
  check of its own for absent cookies or credentials.
\<close>

theorem authenticate_raises_as_base:
  "(returned (authenticate h self cookies credential) = Inl e)
     = (snd (Service_authenticate h self cookies credential) = Some e)
   \<and> (returned (authenticate h self cookies credential) = Inr v)
     = (snd (Service_authenticate h self cookies credential) = None \<and> v = PyNone)"
  by (auto simp: authenticate_unfold raised_def split: option.splits)

theorem authenticate_raises_as_base_witness:
  "returned (authenticate strict_host [] PyNone PyNone) = Inl EnvironmentError
   \<and> returned (authenticate strict_host [] PyNone (PyInstance ''Credential'' [])) = Inr PyNone"
  using authenticate_raises_as_base [of strict_host "[]" PyNone PyNone EnvironmentError PyNone]
    authenticate_raises_as_base
      [of strict_host "[]" PyNone "PyInstance ''Credential'' []" EnvironmentError PyNone]
  by (simp add: strict_host_def)

text \<open>
  C2 as stated fails: over a base class that accepts a call without cookies and
  credential, \<open>authenticate(None, None)\<close> returns \<open>None\<close> and raises nothing.
\<close>

theorem authenticate_absent_counterexample:
  "returned (authenticate idle_host [] PyNone PyNone) = Inr PyNone
   \<and> returned (authenticate idle_host [] PyNone PyNone) \<noteq> Inl EnvironmentError"
  by (simp add: authenticate_def idle_host_def raised_def)

text \<open>
  C3. The command is registered under the name \<open>SERVICE_TAG\<close> with the single
  argument \<open>title\<close> of type \<open>str\<close>. For every context and every keyword dictionary that
  does not name \<open>ctx\<close> (none parsed for this command does), the callback is the
  constructor call \<open>SERVICE_TAG(ctx, **kwargs)\<close> on the same context and dictionary.
  The outcome is determined for every dictionary: for \<open>{title: t}\<close>, the dictionary
  parsed for this command, the constructor receives \<open>ctx\<close> and \<open>t\<close> as they were given
  and the callback returns the instance as the base initializer left it (or passes on
  the base initializer's exception); a dictionary without \<open>title\<close> or with a further
  key is forwarded too and is the constructor's \<open>TypeError\<close>; one that names \<open>ctx\<close> is
  a \<open>TypeError\<close> of the callback's own parameters. Whatever the callback returns is
  the constructed instance.
\<close>

theorem cli_forwards_to_constructor:
  "command_name cli_command = ''SERVICE_TAG''
   \<and> arguments cli_command = [(''title'', TStr)]
   \<and> (map_of kw ''ctx'' = None \<longrightarrow> cli h ctx kw = SERVICE_TAG_call h [ctx] kw)
   \<and> cli h ctx kw =
       (case map_of kw ''ctx'' of
          Some _ \<Rightarrow> (Inl TypeError, [])
        | None \<Rightarrow>
            (case map_of kw ''title'' of
               None \<Rightarrow> (Inl TypeError, [New ''SERVICE_TAG''])
             | Some t \<Rightarrow>
                 if AList.delete ''title'' kw = []
                 then (case snd (Service_init h [(''title'', t)] ctx) of
                         None \<Rightarrow>
                           Inr (PyInstance ''SERVICE_TAG''
                                  (fst (Service_init h [(''title'', t)] ctx)))
                       | Some e \<Rightarrow> Inl e,
                       [New ''SERVICE_TAG'', SetAttr ''title'' t, SuperInit [(''title'', t)] ctx])
                 else (Inl TypeError, [New ''SERVICE_TAG''])))
   \<and> (fst (cli h ctx kw) = Inr v \<longrightarrow>
        (\<exists>t. map_of kw ''title'' = Some t
           \<and> v = PyInstance ''SERVICE_TAG'' (fst (Service_init h [(''title'', t)] ctx))
           \<and> snd (cli h ctx kw)
               = [New ''SERVICE_TAG'', SetAttr ''title'' t, SuperInit [(''title'', t)] ctx]))
   \<and> cli h ctx [(''title'', x)]
       = (case snd (Service_init h [(''title'', x)] ctx) of
            None \<Rightarrow> Inr (PyInstance ''SERVICE_TAG'' (fst (Service_init h [(''title'', x)] ctx)))
          | Some e \<Rightarrow> Inl e,
          [New ''SERVICE_TAG'', SetAttr ''title'' x, SuperInit [(''title'', x)] ctx])"
proof -
  have reg: "command_name cli_command = ''SERVICE_TAG''"
    "arguments cli_command = [(''title'', TStr)]"
    by (simp_all add: cli_command_def)
  have fwd: "map_of kw ''ctx'' = None \<longrightarrow> cli h ctx kw = SERVICE_TAG_call h [ctx] kw"
    by (simp add: cli_def)
  have inst: "fst (cli h ctx kw) = Inr v \<longrightarrow>
        (\<exists>t. map_of kw ''title'' = Some t
           \<and> v = PyInstance ''SERVICE_TAG'' (fst (Service_init h [(''title'', t)] ctx))
           \<and> snd (cli h ctx kw)
               = [New ''SERVICE_TAG'', SetAttr ''title'' t, SuperInit [(''title'', t)] ctx])"
    by (auto simp: cli_outcome split: option.splits if_splits)
  have one: "cli h ctx [(''title'', x)]
       = (case snd (Service_init h [(''title'', x)] ctx) of
            None \<Rightarrow> Inr (PyInstance ''SERVICE_TAG'' (fst (Service_init h [(''title'', x)] ctx)))
          | Some e \<Rightarrow> Inl e,
          [New ''SERVICE_TAG'', SetAttr ''title'' x, SuperInit [(''title'', x)] ctx])"
    by (simp add: cli_outcome)
  from reg fwd inst one cli_outcome [of h ctx kw] show ?thesis by blast
qed

theorem cli_forwards_to_constructor_witness:
  "map_of [(''title'', PyStr ''x'')] ''ctx'' = None
   \<and> cli strict_host ctx0 [(''title'', PyStr ''x'')]
     = SERVICE_TAG_call strict_host [ctx0] [(''title'', PyStr ''x'')]
   \<and> cli strict_host ctx0 [(''title'', PyStr ''x'')]
     = (Inr (PyInstance ''SERVICE_TAG'' [(''title'', PyStr ''x''), (''seen'', PyStr ''x'')]),
        [New ''SERVICE_TAG'', SetAttr ''title'' (PyStr ''x''),
         SuperInit [(''title'', PyStr ''x'')] ctx0])"
proof -
  have base: "Service_init strict_host [(''title'', PyStr ''x'')] ctx0
      = ([(''title'', PyStr ''x''), (''seen'', PyStr ''x'')], None)"
    by (simp add: strict_host_def)
  have kw: "map_of [(''title'', PyStr ''x'')] ''ctx'' = None"
    by simp
  note t = cli_forwards_to_constructor
    [of "[(''title'', PyStr ''x'')]" strict_host ctx0
        "PyInstance ''SERVICE_TAG'' [(''title'', PyStr ''x''), (''seen'', PyStr ''x'')]"
        "PyStr ''x''"]
  from t kw have fwd: "cli strict_host ctx0 [(''title'', PyStr ''x'')]
     = SERVICE_TAG_call strict_host [ctx0] [(''title'', PyStr ''x'')]"
    by blast
  from t have res: "cli strict_host ctx0 [(''title'', PyStr ''x'')]
     = (case snd (Service_init strict_host [(''title'', PyStr ''x'')] ctx0) of
          None \<Rightarrow> Inr (PyInstance ''SERVICE_TAG''
                      (fst (Service_init strict_host [(''title'', PyStr ''x'')] ctx0)))
        | Some e \<Rightarrow> Inl e,
        [New ''SERVICE_TAG'', SetAttr ''title'' (PyStr ''x''),
         SuperInit [(''title'', PyStr ''x'')] ctx0])"
    by blast
  from kw fwd [symmetric] res show ?thesis by (simp add: base)
qed

text \<open>
  C4. For every context \<open>ctx\<close> and title \<open>t\<close>, the constructor call \<open>SERVICE_TAG(ctx, t)\<close>
  allocates the instance, then assigns \<open>self.title = t\<close>, then calls \<open>Service.__init__\<close>
  with \<open>ctx\<close>, and does nothing else: the base initializer is called exactly once, after
  the assignment, on an instance whose \<open>title\<close> is \<open>t\<close>, and its result and the instance
  it leaves are the constructor's. The same holds for \<open>__init__\<close> run on any instance.
  After the constructor \<open>self.title\<close> is \<open>t\<close> whenever the base initializer leaves that
  attribute as it found it.
\<close>

theorem constructor_stores_then_defers:
  "SERVICE_TAG_call h [ctx, t] []
     = (case snd (Service_init h [(''title'', t)] ctx) of
          None \<Rightarrow> Inr (PyInstance ''SERVICE_TAG'' (fst (Service_init h [(''title'', t)] ctx)))
        | Some e \<Rightarrow> Inl e,
        [New ''SERVICE_TAG'', SetAttr ''title'' t, SuperInit [(''title'', t)] ctx])
   \<and> length (filter is_SuperInit (snd (SERVICE_TAG_call h [ctx, t] []))) = 1
   \<and> trace (SERVICE_TAG_init h self ctx t)
     = [SetAttr ''title'' t, SuperInit (AList.update ''title'' t self) ctx]
   \<and> length (filter is_SuperInit (trace (SERVICE_TAG_init h self ctx t))) = 1
   \<and> map_of (AList.update ''title'' t self) ''title'' = Some t
   \<and> self_after (SERVICE_TAG_init h self ctx t)
     = fst (Service_init h (AList.update ''title'' t self) ctx)
   \<and> returned (SERVICE_TAG_init h self ctx t)
     = (case snd (Service_init h (AList.update ''title'' t self) ctx) of
          None \<Rightarrow> Inr PyNone | Some e \<Rightarrow> Inl e)
   \<and> ((\<forall>s. map_of (fst (Service_init h s ctx)) ''title'' = map_of s ''title'') \<longrightarrow>
        map_of (self_after (SERVICE_TAG_init h self ctx t)) ''title'' = Some t)"
proof -
  have call: "SERVICE_TAG_call h [ctx, t] []
     = (case snd (Service_init h [(''title'', t)] ctx) of
          None \<Rightarrow> Inr (PyInstance ''SERVICE_TAG'' (fst (Service_init h [(''title'', t)] ctx)))
        | Some e \<Rightarrow> Inl e,
        [New ''SERVICE_TAG'', SetAttr ''title'' t, SuperInit [(''title'', t)] ctx])"
    by (simp add: SERVICE_TAG_call_def SERVICE_TAG_init_unfold raised_def split: option.splits)
  have once: "length (filter is_SuperInit (snd (SERVICE_TAG_call h [ctx, t] []))) = 1"
    by (simp add: call)
  have init: "trace (SERVICE_TAG_init h self ctx t)
     = [SetAttr ''title'' t, SuperInit (AList.update ''title'' t self) ctx]"
    "length (filter is_SuperInit (trace (SERVICE_TAG_init h self ctx t))) = 1"
    "self_after (SERVICE_TAG_init h self ctx t)
     = fst (Service_init h (AList.update ''title'' t self) ctx)"
    "returned (SERVICE_TAG_init h self ctx t)
     = (case snd (Service_init h (AList.update ''title'' t self) ctx) of
          None \<Rightarrow> Inr PyNone | Some e \<Rightarrow> Inl e)"
    by (simp_all add: SERVICE_TAG_init_unfold raised_def)
  have kept: "(\<forall>s. map_of (fst (Service_init h s ctx)) ''title'' = map_of s ''title'') \<longrightarrow>
        map_of (self_after (SERVICE_TAG_init h self ctx t)) ''title'' = Some t"
    by (simp add: SERVICE_TAG_init_unfold map_of_update_title)
  from call once init kept map_of_update_title [of t self] show ?thesis by blast
qed

theorem constructor_stores_then_defers_witness:
  "SERVICE_TAG_call idle_host [ctx0, PyStr ''x''] []
     = (Inr (PyInstance ''SERVICE_TAG'' [(''title'', PyStr ''x'')]),
        [New ''SERVICE_TAG'', SetAttr ''title'' (PyStr ''x''),
         SuperInit [(''title'', PyStr ''x'')] ctx0])
   \<and> SERVICE_TAG_init idle_host [(''title'', PyInt 7), (''n'', PyNone)] ctx0 (PyStr ''x'')
     = \<lparr>returned = Inr PyNone,
        self_after = [(''title'', PyStr ''x''), (''n'', PyNone)],
        trace = [SetAttr ''title'' (PyStr ''x''),
                 SuperInit [(''title'', PyStr ''x''), (''n'', PyNone)] ctx0]\<rparr>
   \<and> map_of (self_after (SERVICE_TAG_init idle_host [(''title'', PyInt 7), (''n'', PyNone)] ctx0
        (PyStr ''x''))) ''title'' = Some (PyStr ''x'')"
proof -
  have base: "Service_init idle_host = (\<lambda>self ctx. (self, None))"
    by (simp add: idle_host_def)
  have keeps: "\<forall>s. map_of (fst (Service_init idle_host s ctx0)) ''title'' = map_of s ''title''"
    by (simp add: base)
  note t = constructor_stores_then_defers
    [of idle_host ctx0 "PyStr ''x''" "[(''title'', PyInt 7), (''n'', PyNone)]"]
  from t keeps have last:
    "map_of (self_after (SERVICE_TAG_init idle_host [(''title'', PyInt 7), (''n'', PyNone)] ctx0
        (PyStr ''x''))) ''title'' = Some (PyStr ''x'')"
    by blast
  from t have parts:
    "SERVICE_TAG_call idle_host [ctx0, PyStr ''x''] []
     = (Inr (PyInstance ''SERVICE_TAG'' [(''title'', PyStr ''x'')]),
        [New ''SERVICE_TAG'', SetAttr ''title'' (PyStr ''x''),
         SuperInit [(''title'', PyStr ''x'')] ctx0])"
    "trace (SERVICE_TAG_init idle_host [(''title'', PyInt 7), (''n'', PyNone)] ctx0 (PyStr ''x''))
     = [SetAttr ''title'' (PyStr ''x''),
        SuperInit [(''title'', PyStr ''x''), (''n'', PyNone)] ctx0]"
    "self_after (SERVICE_TAG_init idle_host [(''title'', PyInt 7), (''n'', PyNone)] ctx0 (PyStr ''x''))
     = [(''title'', PyStr ''x''), (''n'', PyNone)]"
    "returned (SERVICE_TAG_init idle_host [(''title'', PyInt 7), (''n'', PyNone)] ctx0 (PyStr ''x''))
     = Inr PyNone"
    by (simp_all add: base)
  have "SERVICE_TAG_init idle_host [(''title'', PyInt 7), (''n'', PyNone)] ctx0 (PyStr ''x'')
     = \<lparr>returned = Inr PyNone,
        self_after = [(''title'', PyStr ''x''), (''n'', PyNone)],
        trace = [SetAttr ''title'' (PyStr ''x''),
                 SuperInit [(''title'', PyStr ''x''), (''n'', PyNone)] ctx0]\<rparr>"
    by (rule outcome.equality) (simp_all add: parts)
  with parts(1) last show ?thesis by blast
qed

text \<open>
  C5 (as amended). For every title value, \<open>get_chapters(title)\<close> of the template returns
  \<open>None\<close>, never a list, and does nothing else: its body is the bare ellipsis, and
  returning at least \<open>[]\<close> is left to the plugin author, as the comment in the body asks.
\<close>

theorem get_chapters_returns_None:
  "get_chapters self title = \<lparr>returned = Inr PyNone, self_after = self, trace = []\<rparr>
   \<and> returned (get_chapters self title) \<noteq> Inr (PyList vs)
   \<and> \<not> conforms PyNone (TList (TClass ''Chapter''))"
  by (simp add: get_chapters_def)

theorem get_chapters_returns_None_witness:
  "returned (get_chapters [(''title'', PyStr ''x'')] (PyInstance ''Movies'' [])) \<noteq> Inr (PyList [])
   \<and> self_after (get_chapters [(''title'', PyStr ''x'')] (PyInstance ''Movies'' []))
     = [(''title'', PyStr ''x'')]"
  using get_chapters_returns_None [of "[(''title'', PyStr ''x'')]" "PyInstance ''Movies'' []" "[]"]
  by simp

text \<open>
  C5 as stated fails: for a \<open>Movies\<close> title the hook returns \<open>None\<close>, which is not a list
  of chapters.
\<close>

theorem get_chapters_list_counterexample:
  "returned (get_chapters [] (PyInstance ''Movies'' [])) = Inr PyNone
   \<and> \<not> conforms PyNone (TList (TClass ''Chapter''))"
  by (simp add: get_chapters_def)

text \<open>
  C6 (as amended). Neither DRM hook of the template exchanges anything: for every
  challenge, title and track, \<open>get_widevine_license\<close> and
  \<open>get_widevine_service_certificate\<close> both return \<open>None\<close>, leave the instance as it is and
  perform no effect. \<open>None\<close> is a value of the license hook's annotation
  \<open>Optional[Union[bytes, str]]\<close> and not of the certificate hook's \<open>Union[bytes, str]\<close>.
\<close>

theorem drm_hooks_return_None:
  "get_widevine_license self challenge title track
     = \<lparr>returned = Inr PyNone, self_after = self, trace = []\<rparr>
   \<and> get_widevine_service_certificate self challenge title track
     = \<lparr>returned = Inr PyNone, self_after = self, trace = []\<rparr>
   \<and> conforms PyNone (TOptional (TUnion [TBytes, TStr]))
   \<and> \<not> conforms PyNone (TUnion [TBytes, TStr])"
  by (simp add: get_widevine_license_def get_widevine_service_certificate_def)

theorem drm_hooks_return_None_witness:
  "returned (get_widevine_license [] (PyBytes [8, 1, 18]) (PyInstance ''Movies'' [])
      (PyInstance ''Video'' [])) = Inr PyNone
   \<and> returned (get_widevine_service_certificate [] (PyBytes [8, 4]) (PyInstance ''Movies'' [])
      (PyInstance ''Video'' [])) = Inr PyNone"
  using drm_hooks_return_None
    [of "[]" "PyBytes [8, 1, 18]" "PyInstance ''Movies'' []" "PyInstance ''Video'' []"]
    drm_hooks_return_None
    [of "[]" "PyBytes [8, 4]" "PyInstance ''Movies'' []" "PyInstance ''Video'' []"]
  by simp

text \<open>
  C6 as stated fails: given the two-byte challenge \<open>08 04\<close>, the certificate hook returns
  \<open>None\<close>, which is neither \<open>bytes\<close> nor \<open>str\<close>.
\<close>

theorem certificate_bytes_counterexample:
  "returned (get_widevine_service_certificate [] (PyBytes [8, 4]) (PyInstance ''Movies'' [])
      (PyInstance ''Video'' [])) = Inr PyNone
   \<and> \<not> conforms PyNone TBytes \<and> \<not> conforms PyNone TStr"
  by (simp add: get_widevine_service_certificate_def)

text \<open>
  C7 (as amended). No operation of the file constructs an object of one of the
  external types it names (\<open>Movies\<close>, \<open>Series\<close>, \<open>Tracks\<close>, \<open>Chapter\<close>, \<open>Credential\<close>,
  \<open>AnyTrack\<close>), and the seven methods with a bare-ellipsis body leave the instance
  unchanged and construct and assign nothing. The others do create or change state:
  \<open>cli\<close>, called with keywords that do not name \<open>ctx\<close>, constructs exactly one
  \<open>SERVICE_TAG\<close> instance (with \<open>ctx\<close> among the keywords it does nothing), and it has
  no receiver to change; \<open>__init__\<close> assigns \<open>self.title\<close> and leaves the instance as
  \<open>Service.__init__\<close> returns it; \<open>authenticate\<close> assigns nothing itself and leaves the
  instance as \<open>Service.authenticate\<close> returns it.
\<close>

theorem frame_of_operations:
  "\<not> list_ex constructs_external (trace (invoke h self c))
   \<and> (is_stub c \<longrightarrow> self_after (invoke h self c) = self \<and> trace (invoke h self c) = [])
   \<and> self_after (invoke h self (Call_cli ctx kw)) = self
   \<and> (map_of kw ''ctx'' = None \<longrightarrow>
        filter is_New (trace (invoke h self (Call_cli ctx kw))) = [New ''SERVICE_TAG''])
   \<and> (map_of kw ''ctx'' \<noteq> None \<longrightarrow> trace (invoke h self (Call_cli ctx kw)) = [])
   \<and> self_after (invoke h self (Call_init ctx t))
     = fst (Service_init h (AList.update ''title'' t self) ctx)
   \<and> trace (invoke h self (Call_init ctx t))
     = [SetAttr ''title'' t, SuperInit (AList.update ''title'' t self) ctx]
   \<and> self_after (invoke h self (Call_authenticate cookies credential))
     = fst (Service_authenticate h self cookies credential)
   \<and> trace (invoke h self (Call_authenticate cookies credential))
     = [SuperAuthenticate self cookies credential]"
proof -
  have ext: "\<not> list_ex constructs_external (trace (invoke h self c))"
  proof (cases c)
    case (Call_cli x kw')
    then show ?thesis
      by (simp add: cli_def SERVICE_TAG_call_no_external split: option.splits)
  next
    case (Call_init x title)
    then show ?thesis by (simp add: SERVICE_TAG_init_unfold)
  next
    case (Call_authenticate x y)
    then show ?thesis by (simp add: authenticate_unfold)
  qed (simp_all add: stub_defs)
  have stub: "is_stub c \<longrightarrow> self_after (invoke h self c) = self \<and> trace (invoke h self c) = []"
    by (cases c) (simp_all add: stub_defs)
  have new: "map_of kw ''ctx'' = None \<longrightarrow>
        filter is_New (trace (invoke h self (Call_cli ctx kw))) = [New ''SERVICE_TAG'']"
    by (simp add: cli_def SERVICE_TAG_call_one_New)
  have none: "map_of kw ''ctx'' \<noteq> None \<longrightarrow> trace (invoke h self (Call_cli ctx kw)) = []"
    by (auto simp: cli_def)
  have rest: "self_after (invoke h self (Call_cli ctx kw)) = self"
    "self_after (invoke h self (Call_init ctx t))
     = fst (Service_init h (AList.update ''title'' t self) ctx)"
    "trace (invoke h self (Call_init ctx t))
     = [SetAttr ''title'' t, SuperInit (AList.update ''title'' t self) ctx]"
    "self_after (invoke h self (Call_authenticate cookies credential))
     = fst (Service_authenticate h self cookies credential)"
    "trace (invoke h self (Call_authenticate cookies credential))
     = [SuperAuthenticate self cookies credential]"
    by (simp_all add: SERVICE_TAG_init_unfold authenticate_unfold)
  from ext stub new none rest show ?thesis by blast
qed

theorem frame_of_operations_witness:
  "is_stub (Call_get_tracks (PyInstance ''Movies'' []))
   \<and> self_after (invoke strict_host [(''title'', PyStr ''x'')] (Call_get_tracks (PyInstance ''Movies'' [])))
     = [(''title'', PyStr ''x'')]
   \<and> self_after (invoke strict_host [(''title'', PyStr ''x'')] (Call_init ctx0 (PyStr ''y'')))
     = [(''title'', PyStr ''y''), (''seen'', PyStr ''y'')]
   \<and> map_of [(''title'', PyStr ''y'')] ''ctx'' = None
   \<and> filter is_New (trace (invoke strict_host [(''title'', PyStr ''x'')]
        (Call_cli ctx0 [(''title'', PyStr ''y'')]))) = [New ''SERVICE_TAG'']
   \<and> map_of [(''ctx'', PyNone), (''title'', PyStr ''y'')] ''ctx'' \<noteq> None
   \<and> trace (invoke strict_host [(''title'', PyStr ''x'')]
        (Call_cli ctx0 [(''ctx'', PyNone), (''title'', PyStr ''y'')])) = []"
proof -
  have base: "Service_init strict_host [(''title'', PyStr ''y'')] ctx0
      = ([(''title'', PyStr ''y''), (''seen'', PyStr ''y'')], None)"
    by (simp add: strict_host_def)
  have kw1: "map_of [(''title'', PyStr ''y'')] ''ctx'' = None"
    and kw2: "map_of [(''ctx'', PyNone), (''title'', PyStr ''y'')] ''ctx'' \<noteq> None"
    by simp_all
  note t1 = frame_of_operations
    [of strict_host "[(''title'', PyStr ''x'')]" "Call_get_tracks (PyInstance ''Movies'' [])"
        ctx0 "[(''title'', PyStr ''y'')]" "PyStr ''y''" PyNone PyNone]
  note t2 = frame_of_operations
    [of strict_host "[(''title'', PyStr ''x'')]" "Call_get_tracks (PyInstance ''Movies'' [])"
        ctx0 "[(''ctx'', PyNone), (''title'', PyStr ''y'')]" "PyStr ''y''" PyNone PyNone]
  have stub: "is_stub (Call_get_tracks (PyInstance ''Movies'' []))"
    by simp
  from t1 stub have a:
    "self_after (invoke strict_host [(''title'', PyStr ''x'')] (Call_get_tracks (PyInstance ''Movies'' [])))
     = [(''title'', PyStr ''x'')]"
    by blast
  from t1 have b:
    "self_after (invoke strict_host [(''title'', PyStr ''x'')] (Call_init ctx0 (PyStr ''y'')))
     = fst (Service_init strict_host (AList.update ''title'' (PyStr ''y'') [(''title'', PyStr ''x'')]) ctx0)"
    by blast
  from t1 kw1 have c:
    "filter is_New (trace (invoke strict_host [(''title'', PyStr ''x'')]
        (Call_cli ctx0 [(''title'', PyStr ''y'')]))) = [New ''SERVICE_TAG'']"
    by blast
  from t2 kw2 have d:
    "trace (invoke strict_host [(''title'', PyStr ''x'')]
        (Call_cli ctx0 [(''ctx'', PyNone), (''title'', PyStr ''y'')])) = []"
    by blast
  from b have b': "self_after (invoke strict_host [(''title'', PyStr ''x'')] (Call_init ctx0 (PyStr ''y'')))
     = [(''title'', PyStr ''y''), (''seen'', PyStr ''y'')]"
    by (simp add: base)
  from stub a b' kw1 c kw2 d show ?thesis by blast
qed

text \<open>
  C7 as stated fails: the constructor run on an empty instance leaves it with a
  \<open>title\<close> attribute, and \<open>cli\<close> constructs an object.
\<close>

theorem nothing_changes_counterexample:
  "self_after (invoke idle_host [] (Call_init ctx0 (PyStr ''x''))) = [(''title'', PyStr ''x'')]
   \<and> self_after (invoke idle_host [] (Call_init ctx0 (PyStr ''x''))) \<noteq> []
   \<and> New ''SERVICE_TAG'' \<in> set (trace (invoke idle_host [] (Call_cli ctx0 [(''title'', PyStr ''x'')])))"
  by (simp add: SERVICE_TAG_init_def cli_outcome idle_host_def Let_def)

text \<open>
  C8 (as amended). Each of the five required hooks returns \<open>None\<close> for every input.
  \<open>None\<close> is not a value of the declared return annotation of \<open>get_titles\<close>, \<open>get_tracks\<close>,
  \<open>get_chapters\<close> and \<open>get_widevine_service_certificate\<close>; it is a value of the one of
  \<open>get_widevine_license\<close>, which is \<open>Optional[Union[bytes, str]]\<close>.
\<close>

theorem required_hooks_return_None:
  "required c \<Longrightarrow>
     returned (invoke h self c) = Inr PyNone
     \<and> (\<exists>t. return_hint c = Some t
          \<and> conforms PyNone t = (case c of Call_get_widevine_license _ _ _ \<Rightarrow> True | _ \<Rightarrow> False))"
  by (cases c) (simp_all add: stub_defs)

theorem required_hooks_return_None_witness:
  "required (Call_get_chapters (PyInstance ''Series'' []))
   \<and> returned (invoke idle_host [] (Call_get_chapters (PyInstance ''Series'' []))) = Inr PyNone
   \<and> return_hint (Call_get_chapters (PyInstance ''Series'' [])) = Some (TList (TClass ''Chapter''))
   \<and> \<not> conforms PyNone (TList (TClass ''Chapter''))"
  using required_hooks_return_None [of "Call_get_chapters (PyInstance ''Series'' [])" idle_host "[]"]
  by simp

text \<open>
  C8 as stated fails: \<open>get_widevine_license\<close> is a required hook, it returns \<open>None\<close>, and
  \<open>None\<close> agrees with its declared return annotation.
\<close>

theorem license_hint_counterexample:
  "required (Call_get_widevine_license (PyBytes [8, 1]) (PyInstance ''Movies'' []) (PyInstance ''Video'' []))
   \<and> returned (invoke idle_host []
        (Call_get_widevine_license (PyBytes [8, 1]) (PyInstance ''Movies'' []) (PyInstance ''Video'' [])))
      = Inr PyNone
   \<and> return_hint (Call_get_widevine_license (PyBytes [8, 1]) (PyInstance ''Movies'' []) (PyInstance ''Video'' []))
      = Some (TOptional (TUnion [TBytes, TStr]))
   \<and> conforms PyNone (TOptional (TUnion [TBytes, TStr]))"
  by (simp add: get_widevine_license_def)

text \<open>
  C9. For every instance and every pair of arguments, \<open>authenticate\<close> does exactly one
  thing: it calls \<open>Service.authenticate\<close> once, on the instance and with the arguments as
  they were given, whatever they are. The instance is left as the base method left it.
  The hook returns \<open>None\<close> when the base method raises nothing and otherwise raises the
  base method's exception, so every error it raises is the base method's and none is
  the template's own.
\<close>

theorem authenticate_delegates_once:
  "trace (authenticate h self cookies credential) = [SuperAuthenticate self cookies credential]
   \<and> length (filter is_SuperAuthenticate (trace (authenticate h self cookies credential))) = 1
   \<and> self_after (authenticate h self cookies credential)
     = fst (Service_authenticate h self cookies credential)
   \<and> returned (authenticate h self cookies credential)
     = (case snd (Service_authenticate h self cookies credential) of
          None \<Rightarrow> Inr PyNone
        | Some e \<Rightarrow> Inl e)
   \<and> (returned (authenticate h self cookies credential) = Inl e
        \<longrightarrow> snd (Service_authenticate h self cookies credential) = Some e)
   \<and> (snd (Service_authenticate h self cookies credential) = None
        \<longrightarrow> returned (authenticate h self cookies credential) = Inr PyNone)"
  by (auto simp: authenticate_unfold raised_def split: option.splits)

theorem authenticate_delegates_once_witness:
  "returned (authenticate idle_host [] PyNone PyNone) = Inr PyNone
   \<and> trace (authenticate idle_host [] PyNone PyNone) = [SuperAuthenticate [] PyNone PyNone]
   \<and> returned (authenticate strict_host [] PyNone PyNone) = Inl EnvironmentError
   \<and> snd (Service_authenticate strict_host [] PyNone PyNone) = Some EnvironmentError
   \<and> self_after (authenticate strict_host [] PyNone PyNone) = []
   \<and> returned (authenticate strict_host [] (PyInstance ''MozillaCookieJar'' [])
        (PyInstance ''Credential'' [])) = Inr PyNone
   \<and> self_after (authenticate strict_host [] (PyInstance ''MozillaCookieJar'' [])
        (PyInstance ''Credential'' [])) = [(''authenticated'', PyInt 1)]"
proof -
  have base1: "Service_authenticate idle_host [] PyNone PyNone = ([], None)"
    by (simp add: idle_host_def)
  have base2: "Service_authenticate strict_host [] PyNone PyNone = ([], Some EnvironmentError)"
    by (simp add: strict_host_def)
  have base3: "Service_authenticate strict_host [] (PyInstance ''MozillaCookieJar'' [])
        (PyInstance ''Credential'' []) = ([(''authenticated'', PyInt 1)], None)"
    by (simp add: strict_host_def)
  note t1 = authenticate_delegates_once [of idle_host "[]" PyNone PyNone EnvironmentError]
  note t2 = authenticate_delegates_once [of strict_host "[]" PyNone PyNone EnvironmentError]
  note t3 = authenticate_delegates_once
    [of strict_host "[]" "PyInstance ''MozillaCookieJar'' []" "PyInstance ''Credential'' []"
        EnvironmentError]
  have a1: "returned (authenticate idle_host [] PyNone PyNone) = Inr PyNone"
    using t1 [THEN conjunct2, THEN conjunct2, THEN conjunct2, THEN conjunct1]
    by (simp add: base1)
  have a2: "trace (authenticate idle_host [] PyNone PyNone) = [SuperAuthenticate [] PyNone PyNone]"
    using t1 [THEN conjunct1] .
  have b1: "returned (authenticate strict_host [] PyNone PyNone) = Inl EnvironmentError"
    using t2 [THEN conjunct2, THEN conjunct2, THEN conjunct2, THEN conjunct1]
    by (simp add: base2)
  have b2: "snd (Service_authenticate strict_host [] PyNone PyNone) = Some EnvironmentError"
    using t2 [THEN conjunct2, THEN conjunct2, THEN conjunct2, THEN conjunct2, THEN conjunct1] b1
    by (rule mp)
  have b3: "self_after (authenticate strict_host [] PyNone PyNone) = []"
    using t2 [THEN conjunct2, THEN conjunct2, THEN conjunct1]
    by (simp add: base2)
  have c1: "returned (authenticate strict_host [] (PyInstance ''MozillaCookieJar'' [])
        (PyInstance ''Credential'' [])) = Inr PyNone"
    using t3 [THEN conjunct2, THEN conjunct2, THEN conjunct2, THEN conjunct1]
    by (simp add: base3)
  have c2: "self_after (authenticate strict_host [] (PyInstance ''MozillaCookieJar'' [])
        (PyInstance ''Credential'' [])) = [(''authenticated'', PyInt 1)]"
    using t3 [THEN conjunct2, THEN conjunct2, THEN conjunct1]
    by (simp add: base3)
  from a1 a2 b1 b2 b3 c1 c2 show ?thesis by (intro conjI)
qed

text \<open>
  C10. In every run of the constructor the base initializer is handed an instance on
  which \<open>title\<close> is already the constructor's argument, whatever the instance held
  before and with every other attribute as it was; the constructor's result and final
  instance are the base initializer's on that instance. For \<open>SERVICE_TAG(ctx, title)\<close>
  the instance handed over holds exactly the title.
\<close>

theorem base_initializer_sees_title:
  "SERVICE_TAG_init h self ctx title
     = \<lparr>returned = raised (snd (Service_init h (AList.update ''title'' title self) ctx)),
        self_after = fst (Service_init h (AList.update ''title'' title self) ctx),
        trace = [SetAttr ''title'' title, SuperInit (AList.update ''title'' title self) ctx]\<rparr>
   \<and> map_of (AList.update ''title'' title self) ''title'' = Some title
   \<and> (k \<noteq> ''title'' \<longrightarrow> map_of (AList.update ''title'' title self) k = map_of self k)
   \<and> fst (SERVICE_TAG_call h [ctx, title] [])
     = (case snd (Service_init h [(''title'', title)] ctx) of
          None \<Rightarrow> Inr (PyInstance ''SERVICE_TAG'' (fst (Service_init h [(''title'', title)] ctx)))
        | Some e \<Rightarrow> Inl e)"
  by (simp add: SERVICE_TAG_init_unfold SERVICE_TAG_call_def raised_def update_conv'
      split: option.splits)

theorem base_initializer_sees_title_witness:
  "self_after (SERVICE_TAG_init strict_host [] ctx0 (PyStr ''x''))
     = [(''title'', PyStr ''x''), (''seen'', PyStr ''x'')]
   \<and> returned (SERVICE_TAG_init strict_host [] ctx0 (PyStr ''x'')) = Inr PyNone
   \<and> fst (SERVICE_TAG_call strict_host [ctx0, PyStr ''x''] [])
     = Inr (PyInstance ''SERVICE_TAG'' [(''title'', PyStr ''x''), (''seen'', PyStr ''x'')])"
proof -
  have base: "Service_init strict_host [(''title'', PyStr ''x'')] ctx0
      = ([(''title'', PyStr ''x''), (''seen'', PyStr ''x'')], None)"
    by (simp add: strict_host_def)
  from base_initializer_sees_title [of strict_host "[]" ctx0 "PyStr ''x''" "''n''"]
  show ?thesis by (simp add: base raised_def)
qed

end
